theory Spec2Isabelle
  imports Main
begin

section \<open>gentool: the command-line front end of the generator\<close>

text \<open>
  A shallow embedding of \<^verbatim>\<open>tools/gentool/gentool.go\<close>. Go strings are \<open>string\<close>, a
  \<^verbatim>\<open>[]string\<close> is a \<open>string list\<close> (the nil slice and the empty slice both have
  length 0 and are the list \<open>[]\<close>), a struct is a record, a nilable pointer is an
  \<open>option\<close>. Everything the program reaches outside its own file (the file system, the
  YAML decoder, the database drivers, the migrator and the generator) is a parameter of
  the model.
\<close>

subsection \<open>Data\<close>

type_synonym DBType = string

abbreviation dbMySQL :: DBType where "dbMySQL \<equiv> ''mysql''"
abbreviation dbPostgres :: DBType where "dbPostgres \<equiv> ''postgres''"
abbreviation dbSQLite :: DBType where "dbSQLite \<equiv> ''sqlite''"
abbreviation dbSQLServer :: DBType where "dbSQLServer \<equiv> ''sqlserver''"
abbreviation dbClickHouse :: DBType where "dbClickHouse \<equiv> ''clickhouse''"

record CmdParams =
  DSN :: string
  DB :: string
  Tables :: "string list"
  OnlyModel :: bool
  OutPath :: string
  OutFile :: string
  WithUnitTest :: bool
  ModelPkgName :: string
  FieldNullable :: bool
  FieldWithIndexTag :: bool
  FieldWithTypeTag :: bool
  FieldSignable :: bool

record YamlConfig =
  Version :: string
  Database :: "CmdParams option"

text \<open>The zero value of \<^verbatim>\<open>CmdParams\<close>, which \<^verbatim>\<open>var cmdParse CmdParams\<close> declares.\<close>

definition zeroCmdParams :: CmdParams where
  "zeroCmdParams =
     \<lparr>DSN = '''', DB = '''', Tables = [], OnlyModel = False, OutPath = '''', OutFile = '''',
      WithUnitTest = False, ModelPkgName = '''', FieldNullable = False,
      FieldWithIndexTag = False, FieldWithTypeTag = False, FieldSignable = False\<rparr>"

text \<open>
  Go errors. \<open>Errorf\<close> is \<^verbatim>\<open>fmt.Errorf\<close> on a format without verbs; the two formats
  with a verb keep their argument; \<open>LibError\<close> is an error that a library returned
  (opening a file, decoding YAML, opening a connection, listing tables).
\<close>

datatype go_error =
    Errorf string
  | Errorf_unknow_db DBType
  | Errorf_get_all_tables_fail go_error
  | LibError string

text \<open>The calls of \<^verbatim>\<open>log.Fatalf\<close> and \<^verbatim>\<open>log.Fatalln\<close>: each ends the process.\<close>

datatype fatal =
    Fatalf_loadConfigFile_fail go_error
  | Fatalln_connect_db_server_fail go_error
  | Fatalln_get_tables_info_fail go_error

subsection \<open>The configuration file\<close>

text \<open>
  \<^verbatim>\<open>os.Open\<close> gives the file's bytes or an error; the decoder of \<^verbatim>\<open>yaml.v3\<close> fills a
  zero \<^verbatim>\<open>YamlConfig\<close> from them or gives an error. Both are parameters.
\<close>

record filesystem =
  os_Open :: "string \<Rightarrow> go_error + string"
  yaml_Decode :: "string \<Rightarrow> go_error + YamlConfig"

definition loadConfigFile :: "filesystem \<Rightarrow> string \<Rightarrow> go_error + CmdParams option" where
  "loadConfigFile fs path =
     (case os_Open fs path of
        Inl err \<Rightarrow> Inl err
      | Inr file \<Rightarrow>
          (case yaml_Decode fs file of
             Inl cmdErr \<Rightarrow> Inl cmdErr
           | Inr yamlConfig \<Rightarrow> Inr (Database yamlConfig)))"

subsection \<open>Flags\<close>

text \<open>
  The thirteen string flags as \<^verbatim>\<open>flag.Parse\<close> leaves them; a flag that is not given
  has its default, the empty string.
\<close>

record Flags =
  flag_c :: string
  flag_dsn :: string
  flag_db :: string
  flag_tables :: string
  flag_onlyModel :: string
  flag_outPath :: string
  flag_outFile :: string
  flag_withUnitTest :: string
  flag_modelPkgName :: string
  flag_fieldNullable :: string
  flag_fieldWithIndexTag :: string
  flag_fieldWithTypeTag :: string
  flag_fieldSignable :: string

text \<open>
  \<^verbatim>\<open>strings.Split(s, sep)\<close> for a separator of one byte: the substrings between the
  separators, so \<open>n\<close> separators give \<open>n + 1\<close> substrings, and a string without one is
  returned whole.
\<close>

fun strings_Split :: "string \<Rightarrow> char \<Rightarrow> string list" where
  "strings_Split [] sep = [[]]"
| "strings_Split (c # cs) sep =
     (if c = sep then [] # strings_Split cs sep
      else (case strings_Split cs sep of
              [] \<Rightarrow> [[c]]
            | w # ws \<Rightarrow> (c # w) # ws))"

text \<open>\<^verbatim>\<open>defaultStrParams\<close>: empty string config fill with default value.\<close>

definition defaultStrParams :: "CmdParams \<Rightarrow> CmdParams" where
  "defaultStrParams params =
     (let params = (if DB params = '''' then params\<lparr>DB := ''mysql''\<rparr> else params);
          params = (if OutPath params = '''' then params\<lparr>OutPath := ''./dao/query''\<rparr> else params)
      in params)"

text \<open>
  \<^verbatim>\<open>argParse\<close>, lines 138 to 145: the configuration the flags are then laid over. With
  no \<^verbatim>\<open>-c\<close> it is the zero value; with \<^verbatim>\<open>-c\<close> it is the file's database section, the
  zero value when the section is nil, and a load error is fatal.
\<close>

definition configFileParams :: "filesystem \<Rightarrow> string \<Rightarrow> fatal + CmdParams" where
  "configFileParams fs genPath =
     (if genPath \<noteq> '''' then
        (case loadConfigFile fs genPath of
           Inr (Some p) \<Rightarrow> Inr p
         | Inl err \<Rightarrow> Inl (Fatalf_loadConfigFile_fail err)
         | Inr None \<Rightarrow> Inr zeroCmdParams)
      else Inr zeroCmdParams)"

text \<open>\<^verbatim>\<open>argParse\<close>, lines 146 to 182 (\<^verbatim>\<open>// cmd first\<close>): one guarded assignment per flag.\<close>

definition cmdFirst :: "Flags \<Rightarrow> CmdParams \<Rightarrow> CmdParams" where
  "cmdFirst fl cmdParse =
     (let cmdParse = (if flag_dsn fl \<noteq> '''' then cmdParse\<lparr>DSN := flag_dsn fl\<rparr> else cmdParse);
          cmdParse = (if flag_db fl \<noteq> '''' then cmdParse\<lparr>DB := flag_db fl\<rparr> else cmdParse);
          cmdParse = (if flag_tables fl \<noteq> ''''
                      then cmdParse\<lparr>Tables := strings_Split (flag_tables fl) (CHR '','')\<rparr>
                      else cmdParse);
          cmdParse = (if flag_onlyModel fl \<noteq> ''''
                      then cmdParse\<lparr>OnlyModel := (flag_onlyModel fl = ''true'')\<rparr>
                      else cmdParse);
          cmdParse = (if flag_outPath fl \<noteq> '''' then cmdParse\<lparr>OutPath := flag_outPath fl\<rparr>
                      else cmdParse);
          cmdParse = (if flag_outFile fl \<noteq> '''' then cmdParse\<lparr>OutFile := flag_outFile fl\<rparr>
                      else cmdParse);
          cmdParse = (if flag_withUnitTest fl \<noteq> ''''
                      then cmdParse\<lparr>WithUnitTest := (flag_withUnitTest fl = ''true'')\<rparr>
                      else cmdParse);
          cmdParse = (if flag_modelPkgName fl \<noteq> ''''
                      then cmdParse\<lparr>ModelPkgName := flag_modelPkgName fl\<rparr>
                      else cmdParse);
          cmdParse = (if flag_fieldNullable fl \<noteq> ''''
                      then cmdParse\<lparr>FieldNullable := (flag_fieldNullable fl = ''true'')\<rparr>
                      else cmdParse);
          cmdParse = (if flag_fieldWithIndexTag fl \<noteq> ''''
                      then cmdParse\<lparr>FieldWithIndexTag := (flag_fieldWithIndexTag fl = ''true'')\<rparr>
                      else cmdParse);
          cmdParse = (if flag_fieldWithTypeTag fl \<noteq> ''''
                      then cmdParse\<lparr>FieldWithTypeTag := (flag_fieldWithTypeTag fl = ''true'')\<rparr>
                      else cmdParse);
          cmdParse = (if flag_fieldSignable fl \<noteq> ''''
                      then cmdParse\<lparr>FieldSignable := (flag_fieldSignable fl = ''true'')\<rparr>
                      else cmdParse)
      in cmdParse)"

text \<open>
  \<^verbatim>\<open>argParse\<close>: the file, then the flags, then the defaults. It returns the address of a
  local variable, which is never nil.
\<close>

definition argParse :: "filesystem \<Rightarrow> Flags \<Rightarrow> fatal + CmdParams" where
  "argParse fs fl =
     (case configFileParams fs (flag_c fl) of
        Inl f \<Rightarrow> Inl f
      | Inr cmdParse \<Rightarrow> Inr (defaultStrParams (cmdFirst fl cmdParse)))"

subsection \<open>Connecting\<close>

text \<open>
  A driver's \<^verbatim>\<open>Open(dsn)\<close> only builds a dialector; \<^verbatim>\<open>gorm.Open\<close> is the call that
  reaches the database, and \<^verbatim>\<open>db.Migrator().GetTables()\<close> the one that lists its tables.
\<close>

datatype Dialector =
    mysql_Open string
  | postgres_Open string
  | sqlite_Open string
  | sqlserver_Open string
  | clickhouse_Open string

record 'db gorm_lib =
  gorm_Open :: "Dialector \<Rightarrow> go_error + 'db"
  GetTables :: "'db \<Rightarrow> go_error + string list"

text \<open>
  \<^verbatim>\<open>connectDB\<close> choose db type for connection to database. The model returns, beside the
  result, the dialectors that were handed to \<^verbatim>\<open>gorm.Open\<close>: the connections attempted.
\<close>

definition connectDB ::
  "(Dialector \<Rightarrow> go_error + 'db) \<Rightarrow> DBType \<Rightarrow> string \<Rightarrow> Dialector list \<times> (go_error + 'db)" where
  "connectDB open_db t dsn =
     (if dsn = '''' then ([], Inl (Errorf ''dsn cannot be empty''))
      else if t = dbMySQL then ([mysql_Open dsn], open_db (mysql_Open dsn))
      else if t = dbPostgres then ([postgres_Open dsn], open_db (postgres_Open dsn))
      else if t = dbSQLite then ([sqlite_Open dsn], open_db (sqlite_Open dsn))
      else if t = dbSQLServer then ([sqlserver_Open dsn], open_db (sqlserver_Open dsn))
      else if t = dbClickHouse then ([clickhouse_Open dsn], open_db (clickhouse_Open dsn))
      else ([], Inl (Errorf_unknow_db t)))"

subsection \<open>Generating\<close>

text \<open>
  The generator is a value of an abstract type \<open>'g\<close> that each of its methods takes and
  returns; \<open>'m\<close> is what \<^verbatim>\<open>GenerateModel\<close> returns. The fields of \<^verbatim>\<open>gen.Config\<close> that
  \<^verbatim>\<open>main\<close> sets are the record \<open>gen_Config\<close>. The methods are taken as they return: a
  panic inside the generator is not part of the model.
\<close>

record gen_Config =
  Config_OutPath :: string
  Config_OutFile :: string
  Config_ModelPkgPath :: string
  Config_WithUnitTest :: bool
  Config_FieldNullable :: bool
  Config_FieldWithIndexTag :: bool
  Config_FieldWithTypeTag :: bool
  Config_FieldSignable :: bool

record ('db, 'g, 'm) gen_lib =
  NewGenerator :: "gen_Config \<Rightarrow> 'g"
  UseDB :: "'db \<Rightarrow> 'g \<Rightarrow> 'g"
  GenerateModel :: "string \<Rightarrow> 'g \<Rightarrow> 'm \<times> 'g"
  ApplyBasic :: "'m option list \<Rightarrow> 'g \<Rightarrow> 'g"
  Execute :: "'g \<Rightarrow> 'g"

text \<open>
  The loop of \<^verbatim>\<open>genModels\<close>: \<^verbatim>\<open>for i, tableName := range tablesList\<close> with the body
  \<^verbatim>\<open>models[i] = g.GenerateModel(tableName)\<close>. An element of the \<^verbatim>\<open>[]interface{}\<close> is
  \<open>None\<close> while it is nil. The index stays below the length of \<open>models\<close>, which is
  made with the length of the list the loop ranges over.
\<close>

fun genModels_loop ::
  "(string \<Rightarrow> 'g \<Rightarrow> 'm \<times> 'g) \<Rightarrow> string list \<Rightarrow> nat \<Rightarrow> 'm option list \<Rightarrow> 'g \<Rightarrow> 'm option list \<times> 'g" where
  "genModels_loop generate [] i models g = (models, g)"
| "genModels_loop generate (tableName # rest) i models g =
     (case generate tableName g of
        (m, g') \<Rightarrow> genModels_loop generate rest (Suc i) (models[i := Some m]) g')"

text \<open>\<^verbatim>\<open>genModels\<close> is gorm/gen generated models.\<close>

definition genModels ::
  "('db, 'g, 'm) gen_lib \<Rightarrow> 'db gorm_lib \<Rightarrow> 'g \<Rightarrow> 'db \<Rightarrow> string list \<Rightarrow> go_error + ('m option list \<times> 'g)" where
  "genModels G M g db tables =
     (case (if length tables = 0 then
              (case GetTables M db of
                 Inl err \<Rightarrow> Inl (Errorf_get_all_tables_fail err)
               | Inr all_tables \<Rightarrow> Inr all_tables)
            else Inr tables) of
        Inl err \<Rightarrow> Inl err
      | Inr tablesList \<Rightarrow>
          Inr (genModels_loop (GenerateModel G) tablesList 0
                 (replicate (length tablesList) None) g))"

subsection \<open>The program\<close>

text \<open>The \<^verbatim>\<open>gen.Config\<close> literal that \<^verbatim>\<open>main\<close> passes to \<^verbatim>\<open>gen.NewGenerator\<close>.\<close>

definition newGeneratorConfig :: "CmdParams \<Rightarrow> gen_Config" where
  "newGeneratorConfig config =
     \<lparr>Config_OutPath = OutPath config,
      Config_OutFile = OutFile config,
      Config_ModelPkgPath = ModelPkgName config,
      Config_WithUnitTest = WithUnitTest config,
      Config_FieldNullable = FieldNullable config,
      Config_FieldWithIndexTag = FieldWithIndexTag config,
      Config_FieldWithTypeTag = FieldWithTypeTag config,
      Config_FieldSignable = FieldSignable config\<rparr>"

text \<open>
  \<^verbatim>\<open>main\<close>. Each \<^verbatim>\<open>log.Fatalln\<close> ends the run with \<open>Inl\<close>; a run that reaches the end
  returns the generator as \<^verbatim>\<open>g.Execute()\<close> leaves it. The test \<^verbatim>\<open>config == nil\<close> never
  holds: \<^verbatim>\<open>argParse\<close> returns the address of a variable.
\<close>

definition main ::
  "filesystem \<Rightarrow> 'db gorm_lib \<Rightarrow> ('db, 'g, 'm) gen_lib \<Rightarrow> Flags \<Rightarrow> fatal + 'g" where
  "main fs M G fl =
     (case argParse fs fl of
        Inl f \<Rightarrow> Inl f
      | Inr config \<Rightarrow>
          (case snd (connectDB (gorm_Open M) (DB config) (DSN config)) of
             Inl err \<Rightarrow> Inl (Fatalln_connect_db_server_fail err)
           | Inr db \<Rightarrow>
               (let g = NewGenerator G (newGeneratorConfig config);
                    g = UseDB G db g
                in (case genModels G M g db (Tables config) of
                      Inl err \<Rightarrow> Inl (Fatalln_get_tables_info_fail err)
                    | Inr (models, g) \<Rightarrow>
                        (let g = (if \<not> OnlyModel config then ApplyBasic G models g else g)
                         in Inr (Execute G g))))))"

text \<open>
  The generator after \<^verbatim>\<open>GenerateModel\<close> has been called for each table of a list, in
  the order of the list.
\<close>

definition generated :: "(string \<Rightarrow> 'g \<Rightarrow> 'm \<times> 'g) \<Rightarrow> string list \<Rightarrow> 'g \<Rightarrow> 'g" where
  "generated generate tables g = fold (\<lambda>tableName g. snd (generate tableName g)) tables g"

subsection \<open>Concrete inputs\<close>

text \<open>
  Inputs on which the model is run: a file system with a complete file, a file without
  a database section and a file that does not decode; the flags, none given and all
  given.
\<close>

definition fileParams0 :: CmdParams where
  "fileParams0 =
     \<lparr>DSN = ''file.db'', DB = ''sqlite'', Tables = [''users''], OnlyModel = True,
      OutPath = ''./file/query'', OutFile = ''file.go'', WithUnitTest = True,
      ModelPkgName = ''filemodel'', FieldNullable = True, FieldWithIndexTag = True,
      FieldWithTypeTag = True, FieldSignable = True\<rparr>"

definition fs0 :: filesystem where
  "fs0 =
     \<lparr>os_Open = (\<lambda>path.
        if path = ''gen.yml'' then Inr ''version and database''
        else if path = ''version.yml'' then Inr ''version only''
        else if path = ''broken.yml'' then Inr ''not yaml''
        else Inl (LibError ''no such file or directory'')),
      yaml_Decode = (\<lambda>file.
        if file = ''version and database''
        then Inr \<lparr>Version = ''0.1'', Database = Some fileParams0\<rparr>
        else if file = ''version only'' then Inr \<lparr>Version = ''0.1'', Database = None\<rparr>
        else Inl (LibError ''cannot unmarshal''))\<rparr>"

definition noFlags :: Flags where
  "noFlags =
     \<lparr>flag_c = '''', flag_dsn = '''', flag_db = '''', flag_tables = '''', flag_onlyModel = '''',
      flag_outPath = '''', flag_outFile = '''', flag_withUnitTest = '''', flag_modelPkgName = '''',
      flag_fieldNullable = '''', flag_fieldWithIndexTag = '''', flag_fieldWithTypeTag = '''',
      flag_fieldSignable = ''''\<rparr>"

definition allFlags :: Flags where
  "allFlags =
     \<lparr>flag_c = ''gen.yml'', flag_dsn = ''cli.db'', flag_db = ''postgres'',
      flag_tables = ''orders,,items'', flag_onlyModel = ''false'', flag_outPath = ''./cli/query'',
      flag_outFile = ''cli.go'', flag_withUnitTest = ''True'', flag_modelPkgName = ''climodel'',
      flag_fieldNullable = ''1'', flag_fieldWithIndexTag = ''true'',
      flag_fieldWithTypeTag = ''yes'', flag_fieldSignable = ''TRUE''\<rparr>"

definition allFlagsConfig :: CmdParams where
  "allFlagsConfig =
     \<lparr>DSN = ''cli.db'', DB = ''postgres'', Tables = [''orders'', '''', ''items''],
      OnlyModel = False, OutPath = ''./cli/query'', OutFile = ''cli.go'', WithUnitTest = False,
      ModelPkgName = ''climodel'', FieldNullable = False, FieldWithIndexTag = True,
      FieldWithTypeTag = False, FieldSignable = False\<rparr>"

text \<open>
  A database that opens and has two tables, one that opens and cannot list its tables,
  and a generator that records the calls made on it and names a model after its table.
\<close>

definition gorm0 :: "Dialector gorm_lib" where
  "gorm0 = \<lparr>gorm_Open = (\<lambda>dialector. Inr dialector),
            GetTables = (\<lambda>db. Inr [''users'', ''orders''])\<rparr>"

definition gorm_unlisted :: "Dialector gorm_lib" where
  "gorm_unlisted = \<lparr>gorm_Open = (\<lambda>dialector. Inr dialector),
                    GetTables = (\<lambda>db. Inl (LibError ''permission denied''))\<rparr>"

datatype gen_call =
    NewGenerator_call gen_Config
  | UseDB_call Dialector
  | GenerateModel_call string
  | ApplyBasic_call "string option list"
  | Execute_call

definition recorder :: "(Dialector, gen_call list, string) gen_lib" where
  "recorder =
     \<lparr>NewGenerator = (\<lambda>cfg. [NewGenerator_call cfg]),
      UseDB = (\<lambda>db g. g @ [UseDB_call db]),
      GenerateModel = (\<lambda>tableName g. (''model of '' @ tableName, g @ [GenerateModel_call tableName])),
      ApplyBasic = (\<lambda>models g. g @ [ApplyBasic_call models]),
      Execute = (\<lambda>g. g @ [Execute_call])\<rparr>"

text \<open>
  A file system whose one file has a database section that sets the dsn and nothing
  else.
\<close>

definition dsnOnlyParams :: CmdParams where
  "dsnOnlyParams =
     \<lparr>DSN = ''file.db'', DB = '''', Tables = [], OnlyModel = False, OutPath = '''',
      OutFile = '''', WithUnitTest = False, ModelPkgName = '''', FieldNullable = False,
      FieldWithIndexTag = False, FieldWithTypeTag = False, FieldSignable = False\<rparr>"

definition dsnOnlyConfig :: YamlConfig where
  "dsnOnlyConfig = \<lparr>Version = ''0.1'', Database = Some dsnOnlyParams\<rparr>"

definition fs_dsn_only :: filesystem where
  "fs_dsn_only =
     \<lparr>os_Open = (\<lambda>path.
        if path = ''dsn.yml'' then Inr ''database with dsn''
        else Inl (LibError ''no such file or directory'')),
      yaml_Decode = (\<lambda>content.
        if content = ''database with dsn'' then Inr dsnOnlyConfig
        else Inl (LibError ''cannot unmarshal''))\<rparr>"

section \<open>Properties\<close>

subsection \<open>Merging the configuration\<close>

text \<open>
  The twelve guarded assignments of \<^verbatim>\<open>argParse\<close>, run one after the other on any
  starting configuration: every field ends as its flag's value when the flag is not
  empty, and as it was otherwise.
\<close>

lemma cmdFirst_fields:
  "cmdFirst fl c =
     c\<lparr>DSN := (if flag_dsn fl \<noteq> '''' then flag_dsn fl else DSN c),
      DB := (if flag_db fl \<noteq> '''' then flag_db fl else DB c),
      Tables := (if flag_tables fl \<noteq> '''' then strings_Split (flag_tables fl) (CHR '','') else Tables c),
      OnlyModel := (if flag_onlyModel fl \<noteq> '''' then flag_onlyModel fl = ''true'' else OnlyModel c),
      OutPath := (if flag_outPath fl \<noteq> '''' then flag_outPath fl else OutPath c),
      OutFile := (if flag_outFile fl \<noteq> '''' then flag_outFile fl else OutFile c),
      WithUnitTest := (if flag_withUnitTest fl \<noteq> '''' then flag_withUnitTest fl = ''true'' else WithUnitTest c),
      ModelPkgName := (if flag_modelPkgName fl \<noteq> '''' then flag_modelPkgName fl else ModelPkgName c),
      FieldNullable := (if flag_fieldNullable fl \<noteq> '''' then flag_fieldNullable fl = ''true'' else FieldNullable c),
      FieldWithIndexTag := (if flag_fieldWithIndexTag fl \<noteq> '''' then flag_fieldWithIndexTag fl = ''true'' else FieldWithIndexTag c),
      FieldWithTypeTag := (if flag_fieldWithTypeTag fl \<noteq> '''' then flag_fieldWithTypeTag fl = ''true'' else FieldWithTypeTag c),
      FieldSignable := (if flag_fieldSignable fl \<noteq> '''' then flag_fieldSignable fl = ''true'' else FieldSignable c)\<rparr>"
proof -
  define c1 where "c1 = (if flag_dsn fl \<noteq> '''' then c\<lparr>DSN := flag_dsn fl\<rparr> else c)"
  define c2 where "c2 = (if flag_db fl \<noteq> '''' then c1\<lparr>DB := flag_db fl\<rparr> else c1)"
  define c3 where "c3 = (if flag_tables fl \<noteq> ''''
      then c2\<lparr>Tables := strings_Split (flag_tables fl) (CHR '','')\<rparr> else c2)"
  define c4 where "c4 = (if flag_onlyModel fl \<noteq> ''''
      then c3\<lparr>OnlyModel := (flag_onlyModel fl = ''true'')\<rparr> else c3)"
  define c5 where "c5 = (if flag_outPath fl \<noteq> '''' then c4\<lparr>OutPath := flag_outPath fl\<rparr> else c4)"
  define c6 where "c6 = (if flag_outFile fl \<noteq> '''' then c5\<lparr>OutFile := flag_outFile fl\<rparr> else c5)"
  define c7 where "c7 = (if flag_withUnitTest fl \<noteq> ''''
      then c6\<lparr>WithUnitTest := (flag_withUnitTest fl = ''true'')\<rparr> else c6)"
  define c8 where "c8 = (if flag_modelPkgName fl \<noteq> ''''
      then c7\<lparr>ModelPkgName := flag_modelPkgName fl\<rparr> else c7)"
  define c9 where "c9 = (if flag_fieldNullable fl \<noteq> ''''
      then c8\<lparr>FieldNullable := (flag_fieldNullable fl = ''true'')\<rparr> else c8)"
  define c10 where "c10 = (if flag_fieldWithIndexTag fl \<noteq> ''''
      then c9\<lparr>FieldWithIndexTag := (flag_fieldWithIndexTag fl = ''true'')\<rparr> else c9)"
  define c11 where "c11 = (if flag_fieldWithTypeTag fl \<noteq> ''''
      then c10\<lparr>FieldWithTypeTag := (flag_fieldWithTypeTag fl = ''true'')\<rparr> else c10)"
  define c12 where "c12 = (if flag_fieldSignable fl \<noteq> ''''
      then c11\<lparr>FieldSignable := (flag_fieldSignable fl = ''true'')\<rparr> else c11)"
  have run: "cmdFirst fl c = c12"
    unfolding cmdFirst_def Let_def c12_def c11_def c10_def c9_def c8_def c7_def c6_def c5_def
      c4_def c3_def c2_def c1_def ..
  define v1 where "v1 = (if flag_dsn fl \<noteq> '''' then flag_dsn fl else DSN c)"
  define v2 where "v2 = (if flag_db fl \<noteq> '''' then flag_db fl else DB c)"
  define v3 where "v3 = (if flag_tables fl \<noteq> ''''
      then strings_Split (flag_tables fl) (CHR '','') else Tables c)"
  define v4 where "v4 = (if flag_onlyModel fl \<noteq> '''' then flag_onlyModel fl = ''true'' else OnlyModel c)"
  define v5 where "v5 = (if flag_outPath fl \<noteq> '''' then flag_outPath fl else OutPath c)"
  define v6 where "v6 = (if flag_outFile fl \<noteq> '''' then flag_outFile fl else OutFile c)"
  define v7 where "v7 = (if flag_withUnitTest fl \<noteq> ''''
      then flag_withUnitTest fl = ''true'' else WithUnitTest c)"
  define v8 where "v8 = (if flag_modelPkgName fl \<noteq> '''' then flag_modelPkgName fl else ModelPkgName c)"
  define v9 where "v9 = (if flag_fieldNullable fl \<noteq> ''''
      then flag_fieldNullable fl = ''true'' else FieldNullable c)"
  define v10 where "v10 = (if flag_fieldWithIndexTag fl \<noteq> ''''
      then flag_fieldWithIndexTag fl = ''true'' else FieldWithIndexTag c)"
  define v11 where "v11 = (if flag_fieldWithTypeTag fl \<noteq> ''''
      then flag_fieldWithTypeTag fl = ''true'' else FieldWithTypeTag c)"
  define v12 where "v12 = (if flag_fieldSignable fl \<noteq> ''''
      then flag_fieldSignable fl = ''true'' else FieldSignable c)"
  have t1: "c1 = c\<lparr>DSN := v1\<rparr>"
    by (simp add: c1_def v1_def)
  have t2: "c2 = c\<lparr>DSN := v1, DB := v2\<rparr>"
    by (simp add: c2_def t1 v2_def)
  have t3: "c3 = c\<lparr>DSN := v1, DB := v2, Tables := v3\<rparr>"
    by (simp add: c3_def t2 v3_def)
  have t4: "c4 = c\<lparr>DSN := v1, DB := v2, Tables := v3, OnlyModel := v4\<rparr>"
    by (simp add: c4_def t3 v4_def)
  have t5: "c5 = c\<lparr>DSN := v1, DB := v2, Tables := v3, OnlyModel := v4, OutPath := v5\<rparr>"
    by (simp add: c5_def t4 v5_def)
  have t6: "c6 = c\<lparr>DSN := v1, DB := v2, Tables := v3, OnlyModel := v4, OutPath := v5,
      OutFile := v6\<rparr>"
    by (simp add: c6_def t5 v6_def)
  have t7: "c7 = c\<lparr>DSN := v1, DB := v2, Tables := v3, OnlyModel := v4, OutPath := v5,
      OutFile := v6, WithUnitTest := v7\<rparr>"
    by (simp add: c7_def t6 v7_def)
  have t8: "c8 = c\<lparr>DSN := v1, DB := v2, Tables := v3, OnlyModel := v4, OutPath := v5,
      OutFile := v6, WithUnitTest := v7, ModelPkgName := v8\<rparr>"
    by (simp add: c8_def t7 v8_def)
  have t9: "c9 = c\<lparr>DSN := v1, DB := v2, Tables := v3, OnlyModel := v4, OutPath := v5,
      OutFile := v6, WithUnitTest := v7, ModelPkgName := v8, FieldNullable := v9\<rparr>"
    by (simp add: c9_def t8 v9_def)
  have t10: "c10 = c\<lparr>DSN := v1, DB := v2, Tables := v3, OnlyModel := v4, OutPath := v5,
      OutFile := v6, WithUnitTest := v7, ModelPkgName := v8, FieldNullable := v9,
      FieldWithIndexTag := v10\<rparr>"
    by (simp add: c10_def t9 v10_def)
  have t11: "c11 = c\<lparr>DSN := v1, DB := v2, Tables := v3, OnlyModel := v4, OutPath := v5,
      OutFile := v6, WithUnitTest := v7, ModelPkgName := v8, FieldNullable := v9,
      FieldWithIndexTag := v10, FieldWithTypeTag := v11\<rparr>"
    by (simp add: c11_def t10 v11_def)
  have t12: "c12 = c\<lparr>DSN := v1, DB := v2, Tables := v3, OnlyModel := v4, OutPath := v5,
      OutFile := v6, WithUnitTest := v7, ModelPkgName := v8, FieldNullable := v9,
      FieldWithIndexTag := v10, FieldWithTypeTag := v11, FieldSignable := v12\<rparr>"
    by (simp add: c12_def t11 v12_def)
  show ?thesis
    unfolding run t12 v1_def v2_def v3_def v4_def v5_def v6_def v7_def v8_def v9_def v10_def
      v11_def v12_def ..
qed

lemma defaultStrParams_fields:
  "defaultStrParams p =
     p\<lparr>DB := (if DB p = '''' then ''mysql'' else DB p),
       OutPath := (if OutPath p = '''' then ''./dao/query'' else OutPath p)\<rparr>"
  by (simp add: defaultStrParams_def Let_def)

lemma argParse_Inr:
  assumes "argParse fs fl = Inr config"
  obtains loaded where "configFileParams fs (flag_c fl) = Inr loaded"
    and "config = defaultStrParams (cmdFirst fl loaded)"
  using assms by (auto simp: argParse_def split: sum.splits)

lemma loadConfigFile_gen_yml: "loadConfigFile fs0 ''gen.yml'' = Inr (Some fileParams0)"
  by (simp add: loadConfigFile_def fs0_def)

lemma configFileParams_gen_yml: "configFileParams fs0 ''gen.yml'' = Inr fileParams0"
  by (simp add: configFileParams_def loadConfigFile_gen_yml)

lemma configFileParams_no_path: "configFileParams fs '''' = Inr zeroCmdParams"
  by (simp add: configFileParams_def)

lemma argParse_allFlags: "argParse fs0 allFlags = Inr allFlagsConfig"
  by (simp add: argParse_def allFlags_def allFlagsConfig_def configFileParams_gen_yml
      cmdFirst_def defaultStrParams_def fileParams0_def)

text \<open>
  C1. For every configuration field, a flag that is not empty decides the field of the
  configuration that \<^verbatim>\<open>argParse\<close> returns, whatever the configuration file holds for
  it: a string field is the flag's value, \<^verbatim>\<open>Tables\<close> is the flag's value split at the
  commas, and a boolean field is the flag's value compared with \<^verbatim>\<open>"true"\<close>.
\<close>

theorem argParse_flag_overrides_file:
  assumes "argParse fs fl = Inr config"
  shows "(flag_dsn fl \<noteq> '''' \<longrightarrow> DSN config = flag_dsn fl) \<and>
    (flag_db fl \<noteq> '''' \<longrightarrow> DB config = flag_db fl) \<and>
    (flag_tables fl \<noteq> '''' \<longrightarrow> Tables config = strings_Split (flag_tables fl) (CHR '','')) \<and>
    (flag_onlyModel fl \<noteq> '''' \<longrightarrow> OnlyModel config = (flag_onlyModel fl = ''true'')) \<and>
    (flag_outPath fl \<noteq> '''' \<longrightarrow> OutPath config = flag_outPath fl) \<and>
    (flag_outFile fl \<noteq> '''' \<longrightarrow> OutFile config = flag_outFile fl) \<and>
    (flag_withUnitTest fl \<noteq> '''' \<longrightarrow> WithUnitTest config = (flag_withUnitTest fl = ''true'')) \<and>
    (flag_modelPkgName fl \<noteq> '''' \<longrightarrow> ModelPkgName config = flag_modelPkgName fl) \<and>
    (flag_fieldNullable fl \<noteq> '''' \<longrightarrow>
       FieldNullable config = (flag_fieldNullable fl = ''true'')) \<and>
    (flag_fieldWithIndexTag fl \<noteq> '''' \<longrightarrow>
       FieldWithIndexTag config = (flag_fieldWithIndexTag fl = ''true'')) \<and>
    (flag_fieldWithTypeTag fl \<noteq> '''' \<longrightarrow>
       FieldWithTypeTag config = (flag_fieldWithTypeTag fl = ''true'')) \<and>
    (flag_fieldSignable fl \<noteq> '''' \<longrightarrow>
       FieldSignable config = (flag_fieldSignable fl = ''true''))"
proof -
  from assms obtain loaded where config: "config = defaultStrParams (cmdFirst fl loaded)"
    by (rule argParse_Inr)
  show ?thesis
    unfolding config
    by (intro conjI impI) (simp_all add: defaultStrParams_fields cmdFirst_fields)
qed

theorem argParse_flag_overrides_file_witness:
  "loadConfigFile fs0 (flag_c allFlags) = Inr (Some fileParams0) \<and>
   argParse fs0 allFlags = Inr allFlagsConfig \<and>
   flag_dsn allFlags = ''cli.db'' \<and>
   DSN fileParams0 = ''file.db'' \<and> DSN allFlagsConfig = ''cli.db'' \<and>
   flag_db allFlags = ''postgres'' \<and>
   DB fileParams0 = ''sqlite'' \<and> DB allFlagsConfig = ''postgres'' \<and>
   flag_tables allFlags = ''orders,,items'' \<and>
   Tables fileParams0 = [''users''] \<and> Tables allFlagsConfig = [''orders'', '''', ''items''] \<and>
   flag_onlyModel allFlags = ''false'' \<and>
   OnlyModel fileParams0 \<and> \<not> OnlyModel allFlagsConfig \<and>
   flag_outPath allFlags = ''./cli/query'' \<and>
   OutPath fileParams0 = ''./file/query'' \<and> OutPath allFlagsConfig = ''./cli/query'' \<and>
   flag_outFile allFlags = ''cli.go'' \<and>
   OutFile fileParams0 = ''file.go'' \<and> OutFile allFlagsConfig = ''cli.go'' \<and>
   flag_withUnitTest allFlags = ''True'' \<and>
   WithUnitTest fileParams0 \<and> \<not> WithUnitTest allFlagsConfig \<and>
   flag_modelPkgName allFlags = ''climodel'' \<and>
   ModelPkgName fileParams0 = ''filemodel'' \<and> ModelPkgName allFlagsConfig = ''climodel'' \<and>
   flag_fieldNullable allFlags = ''1'' \<and>
   FieldNullable fileParams0 \<and> \<not> FieldNullable allFlagsConfig \<and>
   flag_fieldWithIndexTag allFlags = ''true'' \<and>
   FieldWithIndexTag fileParams0 \<and> FieldWithIndexTag allFlagsConfig \<and>
   flag_fieldWithTypeTag allFlags = ''yes'' \<and>
   FieldWithTypeTag fileParams0 \<and> \<not> FieldWithTypeTag allFlagsConfig \<and>
   flag_fieldSignable allFlags = ''TRUE'' \<and>
   FieldSignable fileParams0 \<and> \<not> FieldSignable allFlagsConfig"
proof -
  have loaded: "loadConfigFile fs0 (flag_c allFlags) = Inr (Some fileParams0)"
    by (simp add: allFlags_def loadConfigFile_gen_yml)
  have run: "argParse fs0 allFlags = Inr allFlagsConfig"
    by (rule argParse_allFlags)
  from argParse_flag_overrides_file [OF run] have
    "DSN allFlagsConfig = ''cli.db'' \<and>
     DB allFlagsConfig = ''postgres'' \<and>
     Tables allFlagsConfig = [''orders'', '''', ''items''] \<and>
     \<not> OnlyModel allFlagsConfig \<and>
     OutPath allFlagsConfig = ''./cli/query'' \<and>
     OutFile allFlagsConfig = ''cli.go'' \<and>
     \<not> WithUnitTest allFlagsConfig \<and>
     ModelPkgName allFlagsConfig = ''climodel'' \<and>
     \<not> FieldNullable allFlagsConfig \<and>
     FieldWithIndexTag allFlagsConfig \<and>
     \<not> FieldWithTypeTag allFlagsConfig \<and>
     \<not> FieldSignable allFlagsConfig"
    by (simp add: allFlags_def)
  with loaded run show ?thesis
    by (simp add: fileParams0_def allFlags_def)
qed

text \<open>
  C6. A boolean field whose flag is not empty is the comparison of the flag's value
  with the string \<^verbatim>\<open>"true"\<close>: true for that value, false for every other value that is
  not empty, \<^verbatim>\<open>"True"\<close> and \<^verbatim>\<open>"1"\<close> among them.
\<close>

theorem argParse_bool_flag_is_true_literal:
  assumes "argParse fs fl = Inr config"
  shows "(flag_onlyModel fl \<noteq> '''' \<longrightarrow> OnlyModel config = (flag_onlyModel fl = ''true'')) \<and>
    (flag_withUnitTest fl \<noteq> '''' \<longrightarrow> WithUnitTest config = (flag_withUnitTest fl = ''true'')) \<and>
    (flag_fieldNullable fl \<noteq> '''' \<longrightarrow>
       FieldNullable config = (flag_fieldNullable fl = ''true'')) \<and>
    (flag_fieldWithIndexTag fl \<noteq> '''' \<longrightarrow>
       FieldWithIndexTag config = (flag_fieldWithIndexTag fl = ''true'')) \<and>
    (flag_fieldWithTypeTag fl \<noteq> '''' \<longrightarrow>
       FieldWithTypeTag config = (flag_fieldWithTypeTag fl = ''true'')) \<and>
    (flag_fieldSignable fl \<noteq> '''' \<longrightarrow>
       FieldSignable config = (flag_fieldSignable fl = ''true''))"
proof -
  from assms obtain loaded where config: "config = defaultStrParams (cmdFirst fl loaded)"
    by (rule argParse_Inr)
  have "OnlyModel config =
      (if flag_onlyModel fl \<noteq> '''' then flag_onlyModel fl = ''true'' else OnlyModel loaded)"
    by (simp add: config defaultStrParams_fields cmdFirst_fields)
  moreover have "WithUnitTest config =
      (if flag_withUnitTest fl \<noteq> '''' then flag_withUnitTest fl = ''true'' else WithUnitTest loaded)"
    by (simp add: config defaultStrParams_fields cmdFirst_fields)
  moreover have "FieldNullable config =
      (if flag_fieldNullable fl \<noteq> '''' then flag_fieldNullable fl = ''true''
       else FieldNullable loaded)"
    by (simp add: config defaultStrParams_fields cmdFirst_fields)
  moreover have "FieldWithIndexTag config =
      (if flag_fieldWithIndexTag fl \<noteq> '''' then flag_fieldWithIndexTag fl = ''true''
       else FieldWithIndexTag loaded)"
    by (simp add: config defaultStrParams_fields cmdFirst_fields)
  moreover have "FieldWithTypeTag config =
      (if flag_fieldWithTypeTag fl \<noteq> '''' then flag_fieldWithTypeTag fl = ''true''
       else FieldWithTypeTag loaded)"
    by (simp add: config defaultStrParams_fields cmdFirst_fields)
  moreover have "FieldSignable config =
      (if flag_fieldSignable fl \<noteq> '''' then flag_fieldSignable fl = ''true''
       else FieldSignable loaded)"
    by (simp add: config defaultStrParams_fields cmdFirst_fields)
  ultimately show ?thesis
    by simp
qed

theorem argParse_bool_flag_is_true_literal_witness:
  "argParse fs0 allFlags = Inr allFlagsConfig \<and>
   flag_onlyModel allFlags = ''false'' \<and> \<not> OnlyModel allFlagsConfig \<and>
   flag_withUnitTest allFlags = ''True'' \<and> \<not> WithUnitTest allFlagsConfig \<and>
   flag_fieldNullable allFlags = ''1'' \<and> \<not> FieldNullable allFlagsConfig \<and>
   flag_fieldWithIndexTag allFlags = ''true'' \<and> FieldWithIndexTag allFlagsConfig \<and>
   flag_fieldWithTypeTag allFlags = ''yes'' \<and> \<not> FieldWithTypeTag allFlagsConfig \<and>
   flag_fieldSignable allFlags = ''TRUE'' \<and> \<not> FieldSignable allFlagsConfig"
proof -
  have run: "argParse fs0 allFlags = Inr allFlagsConfig"
    by (rule argParse_allFlags)
  from argParse_bool_flag_is_true_literal [OF run] have
    "\<not> OnlyModel allFlagsConfig \<and> \<not> WithUnitTest allFlagsConfig \<and>
     \<not> FieldNullable allFlagsConfig \<and> FieldWithIndexTag allFlagsConfig \<and>
     \<not> FieldWithTypeTag allFlagsConfig \<and> \<not> FieldSignable allFlagsConfig"
    by (simp add: allFlags_def)
  with run show ?thesis
    by (simp add: allFlags_def)
qed

lemma DB_after_flags_and_defaults:
  "DB (defaultStrParams (cmdFirst fl c)) =
     (if flag_db fl \<noteq> '''' then flag_db fl else if DB c \<noteq> '''' then DB c else ''mysql'')"
  by (simp add: defaultStrParams_fields cmdFirst_fields)

lemma OutPath_after_flags_and_defaults:
  "OutPath (defaultStrParams (cmdFirst fl c)) =
     (if flag_outPath fl \<noteq> '''' then flag_outPath fl
      else if OutPath c \<noteq> '''' then OutPath c else ''./dao/query'')"
  by (simp add: defaultStrParams_fields cmdFirst_fields)

text \<open>
  C2. The defaults \<^verbatim>\<open>DB = "mysql"\<close> and \<^verbatim>\<open>OutPath = "./dao/query"\<close> are filled in exactly
  when neither the configuration file nor the flag gives the field a value that is not
  empty; when one of them does, the field keeps that value, the flag's before the
  file's. What the file gives is read off what \<^verbatim>\<open>os.Open\<close> and the decoder return: the
  database section \<open>p\<close> of the decoded file, and nothing when no path is given with
  \<^verbatim>\<open>-c\<close> or the decoded file has no database section.
\<close>

theorem argParse_defaults_only_when_unsupplied:
  "(flag_c fl \<noteq> '''' \<and> os_Open fs (flag_c fl) = Inr content \<and>
    yaml_Decode fs content = Inr yamlConfig \<and> Database yamlConfig = Some p \<longrightarrow>
      (\<exists>config. argParse fs fl = Inr config \<and>
         (flag_db fl = '''' \<and> DB p = '''' \<longrightarrow> DB config = ''mysql'') \<and>
         (flag_db fl \<noteq> '''' \<longrightarrow> DB config = flag_db fl) \<and>
         (flag_db fl = '''' \<and> DB p \<noteq> '''' \<longrightarrow> DB config = DB p) \<and>
         ((DB config \<noteq> flag_db fl \<and> DB config \<noteq> DB p) = (flag_db fl = '''' \<and> DB p = '''')) \<and>
         (flag_outPath fl = '''' \<and> OutPath p = '''' \<longrightarrow> OutPath config = ''./dao/query'') \<and>
         (flag_outPath fl \<noteq> '''' \<longrightarrow> OutPath config = flag_outPath fl) \<and>
         (flag_outPath fl = '''' \<and> OutPath p \<noteq> '''' \<longrightarrow> OutPath config = OutPath p) \<and>
         ((OutPath config \<noteq> flag_outPath fl \<and> OutPath config \<noteq> OutPath p) =
            (flag_outPath fl = '''' \<and> OutPath p = '''')))) \<and>
   (flag_c fl = '''' \<or>
    (os_Open fs (flag_c fl) = Inr content \<and> yaml_Decode fs content = Inr yamlConfig \<and>
     Database yamlConfig = None) \<longrightarrow>
      (\<exists>config. argParse fs fl = Inr config \<and>
         (flag_db fl = '''' \<longrightarrow> DB config = ''mysql'') \<and>
         (flag_db fl \<noteq> '''' \<longrightarrow> DB config = flag_db fl) \<and>
         ((DB config \<noteq> flag_db fl) = (flag_db fl = '''')) \<and>
         (flag_outPath fl = '''' \<longrightarrow> OutPath config = ''./dao/query'') \<and>
         (flag_outPath fl \<noteq> '''' \<longrightarrow> OutPath config = flag_outPath fl) \<and>
         ((OutPath config \<noteq> flag_outPath fl) = (flag_outPath fl = ''''))))"
proof (intro conjI impI)
  assume "flag_c fl \<noteq> '''' \<and> os_Open fs (flag_c fl) = Inr content \<and>
    yaml_Decode fs content = Inr yamlConfig \<and> Database yamlConfig = Some p"
  then have path: "flag_c fl \<noteq> ''''" and load: "loadConfigFile fs (flag_c fl) = Inr (Some p)"
    by (simp_all add: loadConfigFile_def)
  let ?config = "defaultStrParams (cmdFirst fl p)"
  from path load have run: "argParse fs fl = Inr ?config"
    by (simp add: argParse_def configFileParams_def)
  have "(flag_db fl = '''' \<and> DB p = '''' \<longrightarrow> DB ?config = ''mysql'') \<and>
    (flag_db fl \<noteq> '''' \<longrightarrow> DB ?config = flag_db fl) \<and>
    (flag_db fl = '''' \<and> DB p \<noteq> '''' \<longrightarrow> DB ?config = DB p) \<and>
    ((DB ?config \<noteq> flag_db fl \<and> DB ?config \<noteq> DB p) = (flag_db fl = '''' \<and> DB p = ''''))"
    unfolding DB_after_flags_and_defaults by auto
  moreover have "(flag_outPath fl = '''' \<and> OutPath p = '''' \<longrightarrow> OutPath ?config = ''./dao/query'') \<and>
    (flag_outPath fl \<noteq> '''' \<longrightarrow> OutPath ?config = flag_outPath fl) \<and>
    (flag_outPath fl = '''' \<and> OutPath p \<noteq> '''' \<longrightarrow> OutPath ?config = OutPath p) \<and>
    ((OutPath ?config \<noteq> flag_outPath fl \<and> OutPath ?config \<noteq> OutPath p) =
       (flag_outPath fl = '''' \<and> OutPath p = ''''))"
    unfolding OutPath_after_flags_and_defaults by auto
  ultimately show "\<exists>config. argParse fs fl = Inr config \<and>
      (flag_db fl = '''' \<and> DB p = '''' \<longrightarrow> DB config = ''mysql'') \<and>
      (flag_db fl \<noteq> '''' \<longrightarrow> DB config = flag_db fl) \<and>
      (flag_db fl = '''' \<and> DB p \<noteq> '''' \<longrightarrow> DB config = DB p) \<and>
      ((DB config \<noteq> flag_db fl \<and> DB config \<noteq> DB p) = (flag_db fl = '''' \<and> DB p = '''')) \<and>
      (flag_outPath fl = '''' \<and> OutPath p = '''' \<longrightarrow> OutPath config = ''./dao/query'') \<and>
      (flag_outPath fl \<noteq> '''' \<longrightarrow> OutPath config = flag_outPath fl) \<and>
      (flag_outPath fl = '''' \<and> OutPath p \<noteq> '''' \<longrightarrow> OutPath config = OutPath p) \<and>
      ((OutPath config \<noteq> flag_outPath fl \<and> OutPath config \<noteq> OutPath p) =
         (flag_outPath fl = '''' \<and> OutPath p = ''''))"
    using run by (intro exI [of _ ?config]) blast
next
  assume none: "flag_c fl = '''' \<or>
    (os_Open fs (flag_c fl) = Inr content \<and> yaml_Decode fs content = Inr yamlConfig \<and>
     Database yamlConfig = None)"
  let ?config = "defaultStrParams (cmdFirst fl zeroCmdParams)"
  have start: "configFileParams fs (flag_c fl) = Inr zeroCmdParams"
  proof (cases "flag_c fl = ''''")
    case True
    then show ?thesis
      by (simp add: configFileParams_def)
  next
    case False
    with none have "loadConfigFile fs (flag_c fl) = Inr None"
      by (simp add: loadConfigFile_def)
    then show ?thesis
      by (simp add: configFileParams_def)
  qed
  then have run: "argParse fs fl = Inr ?config"
    by (simp add: argParse_def)
  have zero: "DB zeroCmdParams = ''''" "OutPath zeroCmdParams = ''''"
    by (simp_all add: zeroCmdParams_def)
  have "(flag_db fl = '''' \<longrightarrow> DB ?config = ''mysql'') \<and>
    (flag_db fl \<noteq> '''' \<longrightarrow> DB ?config = flag_db fl) \<and>
    ((DB ?config \<noteq> flag_db fl) = (flag_db fl = ''''))"
    unfolding DB_after_flags_and_defaults zero by auto
  moreover have "(flag_outPath fl = '''' \<longrightarrow> OutPath ?config = ''./dao/query'') \<and>
    (flag_outPath fl \<noteq> '''' \<longrightarrow> OutPath ?config = flag_outPath fl) \<and>
    ((OutPath ?config \<noteq> flag_outPath fl) = (flag_outPath fl = ''''))"
    unfolding OutPath_after_flags_and_defaults zero by auto
  ultimately show "\<exists>config. argParse fs fl = Inr config \<and>
      (flag_db fl = '''' \<longrightarrow> DB config = ''mysql'') \<and>
      (flag_db fl \<noteq> '''' \<longrightarrow> DB config = flag_db fl) \<and>
      ((DB config \<noteq> flag_db fl) = (flag_db fl = '''')) \<and>
      (flag_outPath fl = '''' \<longrightarrow> OutPath config = ''./dao/query'') \<and>
      (flag_outPath fl \<noteq> '''' \<longrightarrow> OutPath config = flag_outPath fl) \<and>
      ((OutPath config \<noteq> flag_outPath fl) = (flag_outPath fl = ''''))"
    using run by (intro exI [of _ ?config]) blast
qed

theorem argParse_defaults_only_when_unsupplied_witness:
  "argParse fs0 noFlags = Inr (zeroCmdParams\<lparr>DB := ''mysql'', OutPath := ''./dao/query''\<rparr>) \<and>
   argParse fs0 (noFlags\<lparr>flag_c := ''version.yml''\<rparr>) =
     Inr (zeroCmdParams\<lparr>DB := ''mysql'', OutPath := ''./dao/query''\<rparr>) \<and>
   Database dsnOnlyConfig = Some dsnOnlyParams \<and>
   DB dsnOnlyParams = '''' \<and> OutPath dsnOnlyParams = '''' \<and>
   argParse fs_dsn_only (noFlags\<lparr>flag_c := ''dsn.yml''\<rparr>) =
     Inr (dsnOnlyParams\<lparr>DB := ''mysql'', OutPath := ''./dao/query''\<rparr>) \<and>
   DB fileParams0 = ''sqlite'' \<and> OutPath fileParams0 = ''./file/query'' \<and>
   argParse fs0 (noFlags\<lparr>flag_c := ''gen.yml''\<rparr>) = Inr fileParams0 \<and>
   flag_db allFlags = ''postgres'' \<and> flag_outPath allFlags = ''./cli/query'' \<and>
   argParse fs0 allFlags = Inr allFlagsConfig \<and>
   DB allFlagsConfig = ''postgres'' \<and> OutPath allFlagsConfig = ''./cli/query''"
proof -
  let ?d = "zeroCmdParams\<lparr>DB := ''mysql'', OutPath := ''./dao/query''\<rparr>"
  let ?y = "\<lparr>Version = ''0.1'', Database = Some fileParams0\<rparr>"
  let ?n = "\<lparr>Version = ''0.1'', Database = None\<rparr>"
  have flags: "flag_db allFlags = ''postgres''" "flag_outPath allFlags = ''./cli/query''"
    by (simp_all add: allFlags_def)
  have given: "Database dsnOnlyConfig = Some dsnOnlyParams"
    "DB dsnOnlyParams = ''''" "OutPath dsnOnlyParams = ''''"
    by (simp_all add: dsnOnlyConfig_def dsnOnlyParams_def)
  have "\<exists>config. argParse fs0 noFlags = Inr config \<and> DB config = ''mysql'' \<and>
      OutPath config = ''./dao/query''"
    using argParse_defaults_only_when_unsupplied [of noFlags fs0 "''''" ?n fileParams0]
    by (auto simp add: noFlags_def)
  then have run1: "argParse fs0 noFlags = Inr ?d"
    by (simp add: argParse_def configFileParams_no_path cmdFirst_def defaultStrParams_def
        noFlags_def zeroCmdParams_def)
  have "\<exists>config. argParse fs0 (noFlags\<lparr>flag_c := ''version.yml''\<rparr>) = Inr config \<and>
      DB config = ''mysql'' \<and> OutPath config = ''./dao/query''"
    using argParse_defaults_only_when_unsupplied
      [of "noFlags\<lparr>flag_c := ''version.yml''\<rparr>" fs0 "''version only''" ?n fileParams0]
    by (auto simp add: noFlags_def fs0_def)
  then have run2: "argParse fs0 (noFlags\<lparr>flag_c := ''version.yml''\<rparr>) = Inr ?d"
    by (simp add: argParse_def configFileParams_def loadConfigFile_def fs0_def cmdFirst_def
        defaultStrParams_def noFlags_def zeroCmdParams_def)
  have "\<exists>config. argParse fs_dsn_only (noFlags\<lparr>flag_c := ''dsn.yml''\<rparr>) = Inr config \<and>
      DB config = ''mysql'' \<and> OutPath config = ''./dao/query''"
    using argParse_defaults_only_when_unsupplied
      [of "noFlags\<lparr>flag_c := ''dsn.yml''\<rparr>" fs_dsn_only "''database with dsn''"
        dsnOnlyConfig dsnOnlyParams]
    by (auto simp add: noFlags_def fs_dsn_only_def dsnOnlyConfig_def dsnOnlyParams_def)
  then have run3: "argParse fs_dsn_only (noFlags\<lparr>flag_c := ''dsn.yml''\<rparr>) =
      Inr (dsnOnlyParams\<lparr>DB := ''mysql'', OutPath := ''./dao/query''\<rparr>)"
    by (simp add: argParse_def configFileParams_def loadConfigFile_def fs_dsn_only_def
        dsnOnlyConfig_def cmdFirst_def defaultStrParams_def noFlags_def dsnOnlyParams_def)
  have "\<exists>config. argParse fs0 (noFlags\<lparr>flag_c := ''gen.yml''\<rparr>) = Inr config \<and>
      DB config = ''sqlite'' \<and> OutPath config = ''./file/query''"
    using argParse_defaults_only_when_unsupplied
      [of "noFlags\<lparr>flag_c := ''gen.yml''\<rparr>" fs0 "''version and database''" ?y fileParams0]
    by (auto simp add: noFlags_def fs0_def fileParams0_def)
  then have run4: "argParse fs0 (noFlags\<lparr>flag_c := ''gen.yml''\<rparr>) = Inr fileParams0"
    by (simp add: argParse_def configFileParams_gen_yml cmdFirst_def defaultStrParams_def
        noFlags_def fileParams0_def)
  have "\<exists>config. argParse fs0 allFlags = Inr config \<and> DB config = ''postgres'' \<and>
      OutPath config = ''./cli/query''"
    using argParse_defaults_only_when_unsupplied
      [of allFlags fs0 "''version and database''" ?y fileParams0]
    by (auto simp add: allFlags_def fs0_def)
  then have run5: "argParse fs0 allFlags = Inr allFlagsConfig \<and>
      DB allFlagsConfig = ''postgres'' \<and> OutPath allFlagsConfig = ''./cli/query''"
    by (simp add: argParse_allFlags)
  from run1 run2 run3 run4 run5 flags given show ?thesis
    by (simp add: fileParams0_def)
qed

subsection \<open>Loading the configuration file\<close>

text \<open>
  C5. With a path given by \<^verbatim>\<open>-c\<close>, a file that cannot be opened and a file that does
  not decode are each fatal in \<^verbatim>\<open>argParse\<close>, with the error of the load; \<^verbatim>\<open>argParse\<close>
  then returns no configuration at all, and the run of \<^verbatim>\<open>main\<close> ends there.
\<close>

theorem argParse_load_error_is_fatal:
  assumes "flag_c fl \<noteq> ''''"
    and "os_Open fs (flag_c fl) = Inl err \<or>
      (\<exists>content. os_Open fs (flag_c fl) = Inr content \<and> yaml_Decode fs content = Inl err)"
  shows "loadConfigFile fs (flag_c fl) = Inl err \<and>
    argParse fs fl = Inl (Fatalf_loadConfigFile_fail err) \<and>
    argParse fs fl \<noteq> Inr config \<and>
    main fs M G fl = Inl (Fatalf_loadConfigFile_fail err)"
proof -
  from assms(2) have load: "loadConfigFile fs (flag_c fl) = Inl err"
    by (auto simp: loadConfigFile_def)
  with assms(1) have fatal: "argParse fs fl = Inl (Fatalf_loadConfigFile_fail err)"
    by (simp add: argParse_def configFileParams_def)
  then have "main fs M G fl = Inl (Fatalf_loadConfigFile_fail err)"
    by (simp add: main_def)
  with load fatal show ?thesis
    by simp
qed

theorem argParse_load_error_is_fatal_witness:
  "os_Open fs0 ''missing.yml'' = Inl (LibError ''no such file or directory'') \<and>
   argParse fs0 (allFlags\<lparr>flag_c := ''missing.yml''\<rparr>) =
     Inl (Fatalf_loadConfigFile_fail (LibError ''no such file or directory'')) \<and>
   os_Open fs0 ''broken.yml'' = Inr ''not yaml'' \<and>
   yaml_Decode fs0 ''not yaml'' = Inl (LibError ''cannot unmarshal'') \<and>
   argParse fs0 (noFlags\<lparr>flag_c := ''broken.yml''\<rparr>) =
     Inl (Fatalf_loadConfigFile_fail (LibError ''cannot unmarshal'')) \<and>
   main fs0 gorm0 recorder (noFlags\<lparr>flag_c := ''broken.yml''\<rparr>) =
     Inl (Fatalf_loadConfigFile_fail (LibError ''cannot unmarshal''))"
proof -
  have missing: "os_Open fs0 ''missing.yml'' = Inl (LibError ''no such file or directory'')"
    by (simp add: fs0_def)
  have broken: "os_Open fs0 ''broken.yml'' = Inr ''not yaml''"
    "yaml_Decode fs0 ''not yaml'' = Inl (LibError ''cannot unmarshal'')"
    by (simp_all add: fs0_def)
  have "argParse fs0 (allFlags\<lparr>flag_c := ''missing.yml''\<rparr>) =
      Inl (Fatalf_loadConfigFile_fail (LibError ''no such file or directory''))"
    using argParse_load_error_is_fatal [of "allFlags\<lparr>flag_c := ''missing.yml''\<rparr>" fs0
        "LibError ''no such file or directory''" _ gorm0 recorder] missing
    by simp
  moreover have "argParse fs0 (noFlags\<lparr>flag_c := ''broken.yml''\<rparr>) =
      Inl (Fatalf_loadConfigFile_fail (LibError ''cannot unmarshal'')) \<and>
    main fs0 gorm0 recorder (noFlags\<lparr>flag_c := ''broken.yml''\<rparr>) =
      Inl (Fatalf_loadConfigFile_fail (LibError ''cannot unmarshal''))"
    using argParse_load_error_is_fatal [of "noFlags\<lparr>flag_c := ''broken.yml''\<rparr>" fs0
        "LibError ''cannot unmarshal''" _ gorm0 recorder] broken
    by simp
  ultimately show ?thesis
    using missing broken by simp
qed

text \<open>
  C10. With a path given by \<^verbatim>\<open>-c\<close>, a file that decodes and has no database section is
  no error: \<^verbatim>\<open>argParse\<close> returns the zero configuration with the flags laid over it and
  the two defaults filled in, which is what it returns without \<^verbatim>\<open>-c\<close>.
\<close>

theorem argParse_nil_database_is_zero_config:
  assumes "flag_c fl \<noteq> ''''"
    and "os_Open fs (flag_c fl) = Inr content"
    and "yaml_Decode fs content = Inr yamlConfig"
    and "Database yamlConfig = None"
  shows "loadConfigFile fs (flag_c fl) = Inr None \<and>
    argParse fs fl = Inr (defaultStrParams (cmdFirst fl zeroCmdParams)) \<and>
    argParse fs fl = argParse fs (fl\<lparr>flag_c := ''''\<rparr>) \<and>
    argParse fs fl = Inr
      \<lparr>DSN = flag_dsn fl,
       DB = (if flag_db fl \<noteq> '''' then flag_db fl else ''mysql''),
       Tables = (if flag_tables fl \<noteq> '''' then strings_Split (flag_tables fl) (CHR '','') else []),
       OnlyModel = (flag_onlyModel fl = ''true''),
       OutPath = (if flag_outPath fl \<noteq> '''' then flag_outPath fl else ''./dao/query''),
       OutFile = flag_outFile fl,
       WithUnitTest = (flag_withUnitTest fl = ''true''),
       ModelPkgName = flag_modelPkgName fl,
       FieldNullable = (flag_fieldNullable fl = ''true''),
       FieldWithIndexTag = (flag_fieldWithIndexTag fl = ''true''),
       FieldWithTypeTag = (flag_fieldWithTypeTag fl = ''true''),
       FieldSignable = (flag_fieldSignable fl = ''true'')\<rparr>"
proof -
  from assms(2-4) have load: "loadConfigFile fs (flag_c fl) = Inr None"
    by (simp add: loadConfigFile_def)
  with assms(1) have run: "argParse fs fl = Inr (defaultStrParams (cmdFirst fl zeroCmdParams))"
    by (simp add: argParse_def configFileParams_def)
  have same: "cmdFirst (fl\<lparr>flag_c := ''''\<rparr>) zeroCmdParams = cmdFirst fl zeroCmdParams"
    by (simp add: cmdFirst_fields)
  have bare: "argParse fs (fl\<lparr>flag_c := ''''\<rparr>) =
      Inr (defaultStrParams (cmdFirst fl zeroCmdParams))"
    by (simp add: argParse_def configFileParams_no_path same)
  have fields: "defaultStrParams (cmdFirst fl zeroCmdParams) =
      \<lparr>DSN = flag_dsn fl,
       DB = (if flag_db fl \<noteq> '''' then flag_db fl else ''mysql''),
       Tables = (if flag_tables fl \<noteq> '''' then strings_Split (flag_tables fl) (CHR '','') else []),
       OnlyModel = (flag_onlyModel fl = ''true''),
       OutPath = (if flag_outPath fl \<noteq> '''' then flag_outPath fl else ''./dao/query''),
       OutFile = flag_outFile fl,
       WithUnitTest = (flag_withUnitTest fl = ''true''),
       ModelPkgName = flag_modelPkgName fl,
       FieldNullable = (flag_fieldNullable fl = ''true''),
       FieldWithIndexTag = (flag_fieldWithIndexTag fl = ''true''),
       FieldWithTypeTag = (flag_fieldWithTypeTag fl = ''true''),
       FieldSignable = (flag_fieldSignable fl = ''true'')\<rparr>"
    by (rule CmdParams.equality)
      (simp_all add: defaultStrParams_fields cmdFirst_fields zeroCmdParams_def)
  show ?thesis
    unfolding bare run fields using load by simp
qed

theorem argParse_nil_database_is_zero_config_witness:
  "os_Open fs0 ''version.yml'' = Inr ''version only'' \<and>
   yaml_Decode fs0 ''version only'' = Inr \<lparr>Version = ''0.1'', Database = None\<rparr> \<and>
   argParse fs0 (noFlags\<lparr>flag_c := ''version.yml'', flag_dsn := ''cli.db'', flag_onlyModel := ''true''\<rparr>) =
     Inr (zeroCmdParams\<lparr>DSN := ''cli.db'', DB := ''mysql'', OnlyModel := True,
       OutPath := ''./dao/query''\<rparr>)"
proof -
  let ?fl = "noFlags\<lparr>flag_c := ''version.yml'', flag_dsn := ''cli.db'', flag_onlyModel := ''true''\<rparr>"
  have path: "flag_c ?fl \<noteq> ''''"
    by simp
  have opened: "os_Open fs0 (flag_c ?fl) = Inr ''version only''"
    by (simp add: fs0_def)
  have decoded: "yaml_Decode fs0 ''version only'' = Inr \<lparr>Version = ''0.1'', Database = None\<rparr>"
    by (simp add: fs0_def)
  have nil: "Database \<lparr>Version = ''0.1'', Database = None\<rparr> = None"
    by simp
  from argParse_nil_database_is_zero_config
    [OF path opened decoded nil, THEN conjunct2, THEN conjunct2, THEN conjunct2]
  have "argParse fs0 ?fl =
      Inr (zeroCmdParams\<lparr>DSN := ''cli.db'', DB := ''mysql'', OnlyModel := True,
        OutPath := ''./dao/query''\<rparr>)"
    by (simp add: noFlags_def zeroCmdParams_def)
  with opened decoded show ?thesis
    by simp
qed

subsection \<open>Connecting\<close>

text \<open>
  C8. With an empty dsn, \<^verbatim>\<open>connectDB\<close> returns the error \<^verbatim>\<open>dsn cannot be empty\<close> and
  attempts no connection, for every db type: the test comes before the switch, so an
  unrecognized db with an empty dsn gets this error and not the unknown-db error.
\<close>

theorem connectDB_empty_dsn:
  "connectDB open_db t '''' = ([], Inl (Errorf ''dsn cannot be empty'')) \<and>
   snd (connectDB open_db t '''') \<noteq> Inl (Errorf_unknow_db t)"
  by (simp add: connectDB_def)

text \<open>
  C4, as the code has it. For a db outside the five supported values, \<^verbatim>\<open>connectDB\<close>
  returns an error and attempts no connection; the error is the unknown-db error, which
  carries the value, when the dsn is not empty, and \<^verbatim>\<open>dsn cannot be empty\<close> when it is.
\<close>

theorem connectDB_unknown_db:
  assumes "t \<notin> {dbMySQL, dbPostgres, dbSQLite, dbSQLServer, dbClickHouse}"
  shows "(dsn \<noteq> '''' \<longrightarrow> connectDB open_db t dsn = ([], Inl (Errorf_unknow_db t))) \<and>
    (dsn = '''' \<longrightarrow> connectDB open_db t dsn = ([], Inl (Errorf ''dsn cannot be empty'')))"
  using assms by (simp add: connectDB_def)

theorem connectDB_unknown_db_witness:
  "''oracle'' \<notin> {dbMySQL, dbPostgres, dbSQLite, dbSQLServer, dbClickHouse} \<and>
   connectDB (gorm_Open gorm0) ''oracle'' ''scott/tiger@xe'' = ([], Inl (Errorf_unknow_db ''oracle'')) \<and>
   connectDB (gorm_Open gorm0) ''oracle'' '''' = ([], Inl (Errorf ''dsn cannot be empty''))"
proof -
  have unknown: "''oracle'' \<notin> {dbMySQL, dbPostgres, dbSQLite, dbSQLServer, dbClickHouse}"
    by simp
  from connectDB_unknown_db [OF unknown, of "''scott/tiger@xe''" "gorm_Open gorm0"]
    connectDB_unknown_db [OF unknown, of "''''" "gorm_Open gorm0"] unknown
  show ?thesis
    by simp
qed

text \<open>
  The claim as the specification states it, that an unrecognized db is always answered
  with the error that rejects the db value, fails when the dsn is empty.
\<close>

theorem connectDB_unknown_db_counterexample:
  "''oracle'' \<notin> {dbMySQL, dbPostgres, dbSQLite, dbSQLServer, dbClickHouse} \<and>
   snd (connectDB (gorm_Open gorm0) ''oracle'' '''') = Inl (Errorf ''dsn cannot be empty'') \<and>
   snd (connectDB (gorm_Open gorm0) ''oracle'' '''') \<noteq> Inl (Errorf_unknow_db ''oracle'')"
  by (simp add: connectDB_def)

subsection \<open>Generating the models\<close>

lemma genModels_loop_length:
  "length (fst (genModels_loop generate tables i models g)) = length models"
  by (induction tables arbitrary: i models g) (simp_all split: prod.splits)

lemma genModels_loop_before:
  "j < i \<Longrightarrow> fst (genModels_loop generate tables i models g) ! j = models ! j"
  by (induction tables arbitrary: i models g) (simp_all split: prod.splits)

lemma genModels_loop_generator:
  "snd (genModels_loop generate tables i models g) = generated generate tables g"
  by (induction tables arbitrary: i models g) (simp_all add: generated_def split: prod.splits)

lemma genModels_loop_nth:
  assumes "i + length tables \<le> length models" and "k < length tables"
  shows "fst (genModels_loop generate tables i models g) ! (i + k) =
    Some (fst (generate (tables ! k) (generated generate (take k tables) g)))"
  using assms
proof (induction tables arbitrary: i models g k)
  case Nil
  then show ?case by simp
next
  case (Cons tableName rest)
  obtain m g' where step: "generate tableName g = (m, g')"
    by (cases "generate tableName g")
  show ?case
  proof (cases k)
    case 0
    from Cons.prems have "i < length models"
      by simp
    with 0 step show ?thesis
      by (simp add: genModels_loop_before generated_def)
  next
    case (Suc k')
    with Cons.prems have "Suc i + length rest \<le> length (models[i := Some m])" and "k' < length rest"
      by simp_all
    from Cons.IH [OF this, of g'] Suc step show ?thesis
      by (simp add: generated_def)
  qed
qed

lemma genModels_of_list:
  "\<exists>models g'.
     Inr (genModels_loop (GenerateModel G) tables 0 (replicate (length tables) None) g) =
       (Inr (models, g') :: go_error + ('m option list \<times> 'g)) \<and>
     g' = generated (GenerateModel G) tables g \<and>
     length models = length tables \<and>
     (\<forall>i<length tables. models ! i =
        Some (fst (GenerateModel G (tables ! i) (generated (GenerateModel G) (take i tables) g))))"
proof -
  let ?r = "genModels_loop (GenerateModel G) tables 0 (replicate (length tables) None) g"
  have "length (fst ?r) = length tables"
    by (simp add: genModels_loop_length)
  moreover have "snd ?r = generated (GenerateModel G) tables g"
    by (rule genModels_loop_generator)
  moreover have "\<forall>i<length tables. fst ?r ! i =
      Some (fst (GenerateModel G (tables ! i) (generated (GenerateModel G) (take i tables) g)))"
    using genModels_loop_nth [of 0 tables "replicate (length tables) None" _ "GenerateModel G" g]
    by simp
  ultimately show ?thesis
    by (cases ?r) simp
qed

text \<open>
  C3. Called with no tables, \<^verbatim>\<open>genModels\<close> asks the migrator for the tables of the
  database. When the migrator fails, its error is returned, wrapped. When it answers,
  one model is generated for each table of its answer, in order, which is the result
  of asking for exactly those tables: the pass is empty only when the database has no
  table.
\<close>

theorem genModels_no_tables_is_all_tables:
  "(GetTables M db = Inl err \<longrightarrow>
      genModels G M g db [] = Inl (Errorf_get_all_tables_fail err)) \<and>
   (GetTables M db = Inr all_tables \<longrightarrow>
      (\<exists>models g'. genModels G M g db [] = Inr (models, g') \<and>
         g' = generated (GenerateModel G) all_tables g \<and>
         length models = length all_tables \<and>
         (\<forall>i<length all_tables. models ! i =
            Some (fst (GenerateModel G (all_tables ! i)
              (generated (GenerateModel G) (take i all_tables) g)))) \<and>
         (all_tables \<noteq> [] \<longrightarrow>
            models \<noteq> [] \<and> genModels G M g db [] = genModels G M g db all_tables)))"
proof (intro conjI impI)
  assume "GetTables M db = Inl err"
  then show "genModels G M g db [] = Inl (Errorf_get_all_tables_fail err)"
    by (simp add: genModels_def)
next
  assume listed: "GetTables M db = Inr all_tables"
  then have run: "genModels G M g db [] =
      Inr (genModels_loop (GenerateModel G) all_tables 0 (replicate (length all_tables) None) g)"
    by (simp add: genModels_def)
  have same: "all_tables \<noteq> [] \<Longrightarrow> genModels G M g db [] = genModels G M g db all_tables"
    unfolding run by (simp add: genModels_def)
  from genModels_of_list [of G all_tables g] obtain models g'
    where "genModels G M g db [] = Inr (models, g')"
      and "g' = generated (GenerateModel G) all_tables g"
      and "length models = length all_tables"
      and "\<forall>i<length all_tables. models ! i =
        Some (fst (GenerateModel G (all_tables ! i)
          (generated (GenerateModel G) (take i all_tables) g)))"
    unfolding run by blast
  with same show "\<exists>models g'. genModels G M g db [] = Inr (models, g') \<and>
      g' = generated (GenerateModel G) all_tables g \<and>
      length models = length all_tables \<and>
      (\<forall>i<length all_tables. models ! i =
         Some (fst (GenerateModel G (all_tables ! i)
           (generated (GenerateModel G) (take i all_tables) g)))) \<and>
      (all_tables \<noteq> [] \<longrightarrow>
         models \<noteq> [] \<and> genModels G M g db [] = genModels G M g db all_tables)"
    by fastforce
qed

theorem genModels_no_tables_is_all_tables_witness:
  "GetTables gorm0 (sqlite_Open ''file.db'') = Inr [''users'', ''orders''] \<and>
   genModels recorder gorm0 [] (sqlite_Open ''file.db'') [] =
     Inr ([Some ''model of users'', Some ''model of orders''],
          [GenerateModel_call ''users'', GenerateModel_call ''orders'']) \<and>
   GetTables gorm_unlisted (sqlite_Open ''file.db'') = Inl (LibError ''permission denied'') \<and>
   genModels recorder gorm_unlisted [] (sqlite_Open ''file.db'') [] =
     Inl (Errorf_get_all_tables_fail (LibError ''permission denied''))"
proof -
  let ?db = "sqlite_Open ''file.db''"
  have listed: "GetTables gorm0 ?db = Inr [''users'', ''orders'']"
    by (simp add: gorm0_def)
  have unlisted: "GetTables gorm_unlisted ?db = Inl (LibError ''permission denied'')"
    by (simp add: gorm_unlisted_def)
  have gen: "GenerateModel recorder = (\<lambda>tableName g. (''model of '' @ tableName, g @ [GenerateModel_call tableName]))"
    by (simp add: recorder_def)
  from genModels_no_tables_is_all_tables
    [of gorm0 ?db "LibError ''permission denied''" recorder "[]" "[''users'', ''orders'']"] listed
  obtain models g' where run: "genModels recorder gorm0 [] ?db [] = Inr (models, g')"
    and g': "g' = generated (GenerateModel recorder) [''users'', ''orders''] []"
    and len: "length models = 2"
    and nth: "\<forall>i<2. models ! i =
        Some (fst (GenerateModel recorder ([''users'', ''orders''] ! i)
          (generated (GenerateModel recorder) (take i [''users'', ''orders'']) [])))"
    by auto
  from nth have "models ! 0 = Some ''model of users''" and "models ! 1 = Some ''model of orders''"
    by (simp_all add: gen)
  with len have "models = [Some ''model of users'', Some ''model of orders'']"
    by (cases models; cases "tl models") auto
  moreover from g' have "g' = [GenerateModel_call ''users'', GenerateModel_call ''orders'']"
    by (simp add: generated_def gen)
  moreover from genModels_no_tables_is_all_tables
    [of gorm_unlisted ?db "LibError ''permission denied''" recorder "[]" "[]"] unlisted
  have "genModels recorder gorm_unlisted [] ?db [] =
      Inl (Errorf_get_all_tables_fail (LibError ''permission denied''))"
    by simp
  ultimately show ?thesis
    using run listed unlisted by simp
qed

text \<open>
  C9. Called with a list of tables that is not empty, \<^verbatim>\<open>genModels\<close> returns without
  error a slice as long as the list, whose element at each index is the model that
  \<^verbatim>\<open>GenerateModel\<close> returned for the table name at that index, the calls being made in
  the order of the list: nothing is dropped, merged or reordered.
\<close>

theorem genModels_one_model_per_table:
  assumes "tables \<noteq> []"
  shows "\<exists>models g'. genModels G M g db tables = Inr (models, g') \<and>
    g' = generated (GenerateModel G) tables g \<and>
    length models = length tables \<and>
    (\<forall>i<length tables. models ! i =
       Some (fst (GenerateModel G (tables ! i) (generated (GenerateModel G) (take i tables) g))))"
proof -
  from assms have "genModels G M g db tables =
      Inr (genModels_loop (GenerateModel G) tables 0 (replicate (length tables) None) g)"
    by (simp add: genModels_def)
  with genModels_of_list [of G tables g] show ?thesis
    by simp
qed

theorem genModels_one_model_per_table_witness:
  "genModels recorder gorm_unlisted [] (sqlite_Open ''file.db'') [''users'', '''', ''users''] =
     Inr ([Some ''model of users'', Some ''model of '', Some ''model of users''],
          [GenerateModel_call ''users'', GenerateModel_call '''', GenerateModel_call ''users''])"
proof -
  let ?tables = "[''users'', '''', ''users'']"
  have given: "?tables \<noteq> []"
    by simp
  have gen: "GenerateModel recorder = (\<lambda>tableName g. (''model of '' @ tableName, g @ [GenerateModel_call tableName]))"
    by (simp add: recorder_def)
  from genModels_one_model_per_table [OF given, of recorder gorm_unlisted "[]" "sqlite_Open ''file.db''"]
  obtain models g'
    where run: "genModels recorder gorm_unlisted [] (sqlite_Open ''file.db'') ?tables = Inr (models, g')"
      and g': "g' = generated (GenerateModel recorder) ?tables []"
      and len: "length models = 3"
      and nth: "\<forall>i<3. models ! i =
        Some (fst (GenerateModel recorder (?tables ! i)
          (generated (GenerateModel recorder) (take i ?tables) [])))"
    by auto
  from nth have "models ! 0 = Some ''model of users''" and "models ! 1 = Some ''model of ''"
    and "models ! 2 = Some ''model of users''"
    by (simp_all add: gen)
  with len have "models = [Some ''model of users'', Some ''model of '', Some ''model of users'']"
    by (cases models; cases "tl models"; cases "tl (tl models)") auto
  moreover from g' have
    "g' = [GenerateModel_call ''users'', GenerateModel_call '''', GenerateModel_call ''users'']"
    by (simp add: generated_def gen)
  ultimately show ?thesis
    using run by simp
qed

subsection \<open>The program\<close>

text \<open>
  C7. In a run of \<^verbatim>\<open>main\<close> that gets as far as the generated models, \<^verbatim>\<open>OnlyModel\<close>
  decides one thing: when it is true, \<^verbatim>\<open>Execute\<close> runs on the generator as
  \<^verbatim>\<open>genModels\<close> left it, the models generated and \<^verbatim>\<open>ApplyBasic\<close> not called, so that no
  model is handed over for query code; when it is false, \<^verbatim>\<open>ApplyBasic\<close> is called with
  the models first and \<^verbatim>\<open>Execute\<close> runs after it.
\<close>

theorem main_OnlyModel_skips_ApplyBasic:
  assumes "argParse fs fl = Inr config"
    and "snd (connectDB (gorm_Open M) (DB config) (DSN config)) = Inr db"
    and "genModels G M (UseDB G db (NewGenerator G (newGeneratorConfig config))) db
           (Tables config) = Inr (models, g)"
  shows "(OnlyModel config \<longrightarrow> main fs M G fl = Inr (Execute G g)) \<and>
    (\<not> OnlyModel config \<longrightarrow> main fs M G fl = Inr (Execute G (ApplyBasic G models g)))"
  using assms by (simp add: main_def)

theorem main_OnlyModel_skips_ApplyBasic_witness:
  "OnlyModel fileParams0 \<and>
   main fs0 gorm0 recorder (noFlags\<lparr>flag_c := ''gen.yml''\<rparr>) =
     Inr [NewGenerator_call (newGeneratorConfig fileParams0),
          UseDB_call (sqlite_Open ''file.db''),
          GenerateModel_call ''users'',
          Execute_call] \<and>
   \<not> OnlyModel allFlagsConfig \<and>
   main fs0 gorm0 recorder allFlags =
     Inr [NewGenerator_call (newGeneratorConfig allFlagsConfig),
          UseDB_call (postgres_Open ''cli.db''),
          GenerateModel_call ''orders'', GenerateModel_call '''', GenerateModel_call ''items'',
          ApplyBasic_call [Some ''model of orders'', Some ''model of '', Some ''model of items''],
          Execute_call]"
proof -
  let ?c = "noFlags\<lparr>flag_c := ''gen.yml''\<rparr>"
  let ?g1 = "[NewGenerator_call (newGeneratorConfig fileParams0), UseDB_call (sqlite_Open ''file.db'')]"
  let ?g2 = "[NewGenerator_call (newGeneratorConfig allFlagsConfig),
    UseDB_call (postgres_Open ''cli.db'')]"
  have only: "OnlyModel fileParams0" and both: "\<not> OnlyModel allFlagsConfig"
    by (simp_all add: fileParams0_def allFlagsConfig_def)
  have run1: "argParse fs0 ?c = Inr fileParams0"
    by (simp add: argParse_def configFileParams_gen_yml cmdFirst_def defaultStrParams_def
        noFlags_def fileParams0_def)
  have db1: "snd (connectDB (gorm_Open gorm0) (DB fileParams0) (DSN fileParams0)) =
      Inr (sqlite_Open ''file.db'')"
    by (simp add: connectDB_def gorm0_def fileParams0_def)
  have gen1: "genModels recorder gorm0
      (UseDB recorder (sqlite_Open ''file.db'') (NewGenerator recorder (newGeneratorConfig fileParams0)))
      (sqlite_Open ''file.db'') (Tables fileParams0) =
      Inr ([Some ''model of users''], ?g1 @ [GenerateModel_call ''users''])"
    by (simp add: genModels_def recorder_def fileParams0_def)
  have run2: "argParse fs0 allFlags = Inr allFlagsConfig"
    by (rule argParse_allFlags)
  have db2: "snd (connectDB (gorm_Open gorm0) (DB allFlagsConfig) (DSN allFlagsConfig)) =
      Inr (postgres_Open ''cli.db'')"
    by (simp add: connectDB_def gorm0_def allFlagsConfig_def)
  have gen2: "genModels recorder gorm0
      (UseDB recorder (postgres_Open ''cli.db'')
         (NewGenerator recorder (newGeneratorConfig allFlagsConfig)))
      (postgres_Open ''cli.db'') (Tables allFlagsConfig) =
      Inr ([Some ''model of orders'', Some ''model of '', Some ''model of items''],
           ?g2 @ [GenerateModel_call ''orders'', GenerateModel_call '''', GenerateModel_call ''items''])"
    by (simp add: genModels_def recorder_def allFlagsConfig_def)
  from main_OnlyModel_skips_ApplyBasic [OF run1 db1 gen1] only
  have "main fs0 gorm0 recorder ?c = Inr (?g1 @ [GenerateModel_call ''users'', Execute_call])"
    by (simp add: recorder_def)
  moreover from main_OnlyModel_skips_ApplyBasic [OF run2 db2 gen2] both
  have "main fs0 gorm0 recorder allFlags =
      Inr (?g2 @ [GenerateModel_call ''orders'', GenerateModel_call '''', GenerateModel_call ''items'',
        ApplyBasic_call [Some ''model of orders'', Some ''model of '', Some ''model of items''],
        Execute_call])"
    by (simp add: recorder_def)
  ultimately show ?thesis
    using only both by simp
qed

end
